theory Spec2Isabelle
  imports Complex_Main
begin

section \<open>Numbers and errors\<close>

text \<open>
  Python floats are read as real numbers: \<open>+\<close>, \<open>-\<close>, \<open>*\<close>, \<open>**\<close>, the square root and
  the arctangent are the exact operations, without rounding, infinities or NaN. The one
  arithmetic operation of Python floats that raises is kept as an error value: \<open>x / y\<close> with
  \<open>y == 0.0\<close> raises ZeroDivisionError. What rounding does to a sum and a difference is
  modelled separately, for the one statement that is about it.
\<close>

datatype error =
    ZeroDivisionError
  | AttributeError
  | NameError string
  | ValueError
  | IndexError
  | OpenMMException
  | SyntaxError
  | TypeError

definition py_truediv :: "real \<Rightarrow> real \<Rightarrow> error + real" where
  "py_truediv x y = (if y = 0 then Inl ZeroDivisionError else Inr (x / y))"

text \<open>
  A list comprehension \<^verbatim>\<open>[f(x) for x in xs]\<close> whose body may raise: the elements are
  computed from left to right and the first exception ends the comprehension.
\<close>

fun comprehension :: "('a \<Rightarrow> error + 'b) \<Rightarrow> 'a list \<Rightarrow> error + 'b list" where
  "comprehension f [] = Inr []"
| "comprehension f (x # xs) =
     (case f x of
        Inl e \<Rightarrow> Inl e
      | Inr y \<Rightarrow> (case comprehension f xs of Inl e \<Rightarrow> Inl e | Inr ys \<Rightarrow> Inr (y # ys)))"

section \<open>The class Vector\<close>

text \<open>
  \<^verbatim>\<open>
  class Vector:
      def __init__(self, data):
          self.data = data
  \<close>
\<close>

datatype Vector = Vector (data: "real list")

text \<open>
  The right-hand operand of an arithmetic operator is any Python object. The operators test
  \<^verbatim>\<open>isinstance(y, float)\<close>; everything else goes to the branch that reads \<^verbatim>\<open>y.data\<close>, which
  a Vector has and an int has not.
\<close>

datatype operand = PyFloat real | PyInt int | PyVector Vector

text \<open>\<^verbatim>\<open>def sum(self): return sum(self.data)\<close>\<close>

definition Vector_sum :: "Vector \<Rightarrow> real" where
  "Vector_sum self = sum_list (data self)"

text \<open>
  \<^verbatim>\<open>def mean(self): return average(self.data)\<close>

  \<^verbatim>\<open>average\<close> is a global name, looked up when \<^verbatim>\<open>mean\<close> is called. The model takes the
  functions bound in the module's global namespace as a map from names; an unbound name
  raises NameError.
\<close>

type_synonym globals = "string \<rightharpoonup> (real list \<Rightarrow> error + real)"

definition Vector_mean :: "globals \<Rightarrow> Vector \<Rightarrow> error + real" where
  "Vector_mean g self =
     (case g ''average'' of
        None \<Rightarrow> Inl (NameError ''average'')
      | Some average \<Rightarrow> average (data self))"

text \<open>
  The notebook that defines Vector contains no \<^verbatim>\<open>def average\<close>, no assignment to
  \<^verbatim>\<open>average\<close> and no import that could bind it (its only import is
  \<^verbatim>\<open>from datetime import date\<close>, local to a method), and \<^verbatim>\<open>average\<close> is not a Python
  builtin: no function over sequences is bound in its global namespace.
\<close>

definition notebook_globals :: globals where
  "notebook_globals = Map.empty"

text \<open>
  \<^verbatim>\<open>
  def __add__(self, y):
      if isinstance(y, float):
          return self.__class__([x + y for x in self.data])
      else:
          return self.__class__([x + _y for (x, _y) in zip(self.data, y.data)])
  \<close>
  and the same for \<^verbatim>\<open>__sub__\<close>, \<^verbatim>\<open>__mul__\<close> and \<^verbatim>\<open>__truediv__\<close>. Python's \<^verbatim>\<open>zip\<close> stops
  at the end of the shorter sequence, as \<^const>\<open>zip\<close> does.
\<close>

definition Vector_add :: "Vector \<Rightarrow> operand \<Rightarrow> error + Vector" where
  "Vector_add self y =
     (case y of
        PyFloat s \<Rightarrow> Inr (Vector (map (\<lambda>x. x + s) (data self)))
      | PyVector w \<Rightarrow> Inr (Vector (map (\<lambda>(x, y'). x + y') (zip (data self) (data w))))
      | PyInt _ \<Rightarrow> Inl AttributeError)"

definition Vector_sub :: "Vector \<Rightarrow> operand \<Rightarrow> error + Vector" where
  "Vector_sub self y =
     (case y of
        PyFloat s \<Rightarrow> Inr (Vector (map (\<lambda>x. x - s) (data self)))
      | PyVector w \<Rightarrow> Inr (Vector (map (\<lambda>(x, y'). x - y') (zip (data self) (data w))))
      | PyInt _ \<Rightarrow> Inl AttributeError)"

definition Vector_mul :: "Vector \<Rightarrow> operand \<Rightarrow> error + Vector" where
  "Vector_mul self y =
     (case y of
        PyFloat s \<Rightarrow> Inr (Vector (map (\<lambda>x. x * s) (data self)))
      | PyVector w \<Rightarrow> Inr (Vector (map (\<lambda>(x, y'). x * y') (zip (data self) (data w))))
      | PyInt _ \<Rightarrow> Inl AttributeError)"

definition Vector_truediv :: "Vector \<Rightarrow> operand \<Rightarrow> error + Vector" where
  "Vector_truediv self y =
     (case y of
        PyFloat s \<Rightarrow> map_sum id Vector (comprehension (\<lambda>x. py_truediv x s) (data self))
      | PyVector w \<Rightarrow>
          map_sum id Vector
            (comprehension (\<lambda>(x, y'). py_truediv x y') (zip (data self) (data w)))
      | PyInt _ \<Rightarrow> Inl AttributeError)"

text \<open>\<^verbatim>\<open>def dot(self, y): return (self * y).sum()\<close>\<close>

definition Vector_dot :: "Vector \<Rightarrow> operand \<Rightarrow> error + real" where
  "Vector_dot self y =
     (case Vector_mul self y of Inl e \<Rightarrow> Inl e | Inr p \<Rightarrow> Inr (Vector_sum p))"

section \<open>Distances, angles and the harmonic potential\<close>

text \<open>
  A coordinate is one row of the conformer array, of shape (3,): three floats. The numpy
  operations on such rows are written out componentwise.
\<close>

type_synonym coordinate = "real \<times> real \<times> real"

text \<open>\<^verbatim>\<open>def get_distance_vector(x0, x1): return x1 - x0\<close>\<close>

fun get_distance_vector :: "coordinate \<Rightarrow> coordinate \<Rightarrow> coordinate" where
  "get_distance_vector (a0, a1, a2) (b0, b1, b2) = (b0 - a0, b1 - a1, b2 - a2)"

text \<open>\<^verbatim>\<open>def get_norm(x01): return np.linalg.norm(x01, ord=2, axis=-1)\<close>\<close>

fun get_norm :: "coordinate \<Rightarrow> real" where
  "get_norm (x, y, z) = sqrt (x\<^sup>2 + y\<^sup>2 + z\<^sup>2)"

text \<open>\<^verbatim>\<open>def get_distance(x0, x1): return get_norm(get_distance_vector(x0, x1))\<close>\<close>

definition get_distance :: "coordinate \<Rightarrow> coordinate \<Rightarrow> real" where
  "get_distance x0 x1 = get_norm (get_distance_vector x0 x1)"

text \<open>\<^verbatim>\<open>np.cross\<close> of two rows of three components.\<close>

fun cross :: "coordinate \<Rightarrow> coordinate \<Rightarrow> coordinate" where
  "cross (a0, a1, a2) (b0, b1, b2) = (a1 * b2 - a2 * b1, a2 * b0 - a0 * b2, a0 * b1 - a1 * b0)"

text \<open>\<^verbatim>\<open>(x10 * x12).sum(-1)\<close>: the componentwise product, summed over the last axis.\<close>

fun times_coordinate :: "coordinate \<Rightarrow> coordinate \<Rightarrow> coordinate" where
  "times_coordinate (a0, a1, a2) (b0, b1, b2) = (a0 * b0, a1 * b1, a2 * b2)"

fun sum_last :: "coordinate \<Rightarrow> real" where
  "sum_last (x, y, z) = x + y + z"

text \<open>
  \<^verbatim>\<open>np.arctan2(y, x)\<close>: the angle of the point \<open>(x, y)\<close> seen from the origin, in
  \<open>(-pi, pi]\<close>, and 0 at the origin.
\<close>

definition arctan2 :: "real \<Rightarrow> real \<Rightarrow> real" where
  "arctan2 y x =
     (if 0 < x then arctan (y / x)
      else if x < 0 then (if 0 \<le> y then arctan (y / x) + pi else arctan (y / x) - pi)
      else if 0 < y then pi / 2
      else if y < 0 then - (pi / 2)
      else 0)"

text \<open>
  \<^verbatim>\<open>
  def get_angle(x0, x1, x2):
      x10 = get_distance_vector(x1, x0)
      x12 = get_distance_vector(x1, x2)
      c012 = np.arctan2(
          get_norm(np.cross(x10, x12)),
          (x10 * x12).sum(-1)
      )
      return c012
  \<close>
\<close>

definition get_angle :: "coordinate \<Rightarrow> coordinate \<Rightarrow> coordinate \<Rightarrow> real" where
  "get_angle x0 x1 x2 =
     (let x10 = get_distance_vector x1 x0;
          x12 = get_distance_vector x1 x2;
          c012 = arctan2 (get_norm (cross x10 x12)) (sum_last (times_coordinate x10 x12))
      in c012)"

text \<open>\<^verbatim>\<open>def harmonic(x, k, r0): return 0.5 * k * (x - r0) ** 2\<close>\<close>

definition harmonic :: "real \<Rightarrow> real \<Rightarrow> real \<Rightarrow> real" where
  "harmonic x k r0 = 0.5 * k * (x - r0)\<^sup>2"

section \<open>The bond energy of the notebook\<close>

text \<open>
  The parameters of one harmonic bond as the simulation engine returns them from
  \<^verbatim>\<open>getBondParameters\<close>: the two atoms, the equilibrium length and the force constant.
\<close>

record BondTerm =
  bond_atom_i :: nat
  bond_atom_j :: nat
  bond_r0 :: real
  bond_k_r :: real

text \<open>
  The engine hands out its parameters as Quantity objects, numbers with a unit attached. The
  positions of the conformer are bare numbers (\<^verbatim>\<open>m_as(unit.nanometer)\<close>), and so are the
  distances computed from them.
\<close>

datatype pyvalue = Number real | Quantity real

text \<open>
  The notebook is run cell by cell. The names its cells bind, each \<^const>\<open>None\<close> until a
  cell has bound it: the three atoms, the two distances, and the two bond parameters.
\<close>

record namespace =
  nb_atoms :: "(coordinate \<times> coordinate \<times> coordinate) option"
  nb_r01 :: "real option"
  nb_r12 :: "real option"
  nb_r0 :: "pyvalue option"
  nb_k_r :: "pyvalue option"

definition fresh_namespace :: namespace where
  "fresh_namespace =
     \<lparr>nb_atoms = None, nb_r01 = None, nb_r12 = None, nb_r0 = None, nb_k_r = None\<rparr>"

text \<open>
  A cell either raises or leaves a new namespace. A cell that raises binds nothing: the
  namespace stays as it was, and the cells after it can still be run.
\<close>

definition run_cell :: "(namespace \<Rightarrow> error + namespace) \<Rightarrow> namespace \<Rightarrow> namespace" where
  "run_cell cell ns = (case cell ns of Inl _ \<Rightarrow> ns | Inr ns' \<Rightarrow> ns')"

text \<open>
  \<^verbatim>\<open>x0, x1, x2 = conformer\<close>: unpacking raises ValueError unless the conformer has exactly
  three rows.
\<close>

definition unpack_cell :: "coordinate list \<Rightarrow> namespace \<Rightarrow> error + namespace" where
  "unpack_cell conformer ns =
     (case conformer of
        [x0, x1, x2] \<Rightarrow> Inr (ns\<lparr>nb_atoms := Some (x0, x1, x2)\<rparr>)
      | _ \<Rightarrow> Inl ValueError)"

text \<open>
  \<^verbatim>\<open>
  r01 = get_distance(x0, x1)
  r12 = get_distance(x1, x2)
  \<close>
\<close>

definition distances_cell :: "namespace \<Rightarrow> error + namespace" where
  "distances_cell ns =
     (case nb_atoms ns of
        None \<Rightarrow> Inl (NameError ''x0'')
      | Some (x0, x1, x2) \<Rightarrow>
          Inr (ns\<lparr>nb_r01 := Some (get_distance x0 x1), nb_r12 := Some (get_distance x1 x2)\<rparr>))"

text \<open>
  \<^verbatim>\<open>
  for force in system.getForces():
      if "HarmonicBond" in force.getName():
          _, __, r0, k_r = force.getBondParameters(0)
  \<close>
  The parameters are those of the bond with index 0 (the engine raises when there is none);
  its two atom indices are discarded. The length and the force constant come with their units.
\<close>

definition parameters_cell :: "BondTerm list \<Rightarrow> namespace \<Rightarrow> error + namespace" where
  "parameters_cell bonds ns =
     (case bonds of
        [] \<Rightarrow> Inl OpenMMException
      | b # _ \<Rightarrow>
          Inr (ns\<lparr>nb_r0 := Some (Quantity (bond_r0 b)), nb_k_r := Some (Quantity (bond_k_r b))\<rparr>))"

text \<open>
  The cell that is meant to erase the units:
  \<^verbatim>\<open>
  r0, k_r, theta0, k_theta = (
      r0.value_in_unit(unit.nanometer),
      k_r.value_in_unit(unit.kilojoule_per_mole / unit.nanometer ** 2),
      theta0.value_in_unit(unit.radian),,
      k_theta.value_in_unit(unit.kilojoule_per_mole / unit.radian ** 2),
  )
  \<close>
  As saved it does not parse: the third line ends in two commas. Python refuses the whole cell
  with SyntaxError before any of it runs, whatever the namespace holds.
\<close>

definition strip_units_cell :: "namespace \<Rightarrow> error + namespace" where
  "strip_units_cell ns = Inl SyntaxError"

text \<open>
  \<^verbatim>\<open>harmonic(x, k, r0)\<close> called with a bare number \<^verbatim>\<open>x\<close> and parameters that may carry units.
  \<^verbatim>\<open>0.5 * k\<close> is a Quantity when \<^verbatim>\<open>k\<close> is one; \<^verbatim>\<open>x - r0\<close>, a bare number minus a Quantity,
  raises TypeError. On bare numbers it is \<^const>\<open>harmonic\<close>.
\<close>

definition harmonic_call :: "real \<Rightarrow> pyvalue \<Rightarrow> pyvalue \<Rightarrow> error + pyvalue" where
  "harmonic_call x k r0 =
     (case r0 of
        Quantity _ \<Rightarrow> Inl TypeError
      | Number r \<Rightarrow>
          (case k of
             Number c \<Rightarrow> Inr (Number (harmonic x c r))
           | Quantity c \<Rightarrow> Inr (Quantity (harmonic x c r))))"

text \<open>
  The sum of the two energies. Both are computed with the same \<^verbatim>\<open>k_r\<close>, so both are bare
  numbers or both are Quantities of one unit.
\<close>

fun py_add :: "pyvalue \<Rightarrow> pyvalue \<Rightarrow> error + pyvalue" where
  "py_add (Number a) (Number b) = Inr (Number (a + b))"
| "py_add (Quantity a) (Quantity b) = Inr (Quantity (a + b))"
| "py_add _ _ = Inl TypeError"

text \<open>
  \<^verbatim>\<open>bond_energy_computed = harmonic(r01, k_r, r0) + harmonic(r12, k_r, r0)\<close>

  The names are looked up in the order Python evaluates them; an unbound name raises NameError.
\<close>

definition energy_cell :: "namespace \<Rightarrow> error + pyvalue" where
  "energy_cell ns =
     (case nb_r01 ns of
        None \<Rightarrow> Inl (NameError ''r01'')
      | Some r01 \<Rightarrow>
     (case nb_k_r ns of
        None \<Rightarrow> Inl (NameError ''k_r'')
      | Some k_r \<Rightarrow>
     (case nb_r0 ns of
        None \<Rightarrow> Inl (NameError ''r0'')
      | Some r0 \<Rightarrow>
     (case harmonic_call r01 k_r r0 of
        Inl e \<Rightarrow> Inl e
      | Inr e01 \<Rightarrow>
     (case nb_r12 ns of
        None \<Rightarrow> Inl (NameError ''r12'')
      | Some r12 \<Rightarrow>
     (case harmonic_call r12 k_r r0 of
        Inl e \<Rightarrow> Inl e
      | Inr e12 \<Rightarrow> py_add e01 e12))))))"

text \<open>
  The cells in the order of the notebook, from a fresh kernel; the bond energy is what the last
  cell computes.
\<close>

definition bond_energy_computed :: "coordinate list \<Rightarrow> BondTerm list \<Rightarrow> error + pyvalue" where
  "bond_energy_computed conformer bonds =
     energy_cell
       (run_cell strip_units_cell
         (run_cell (parameters_cell bonds)
           (run_cell distances_cell
             (run_cell (unpack_cell conformer) fresh_namespace))))"

text \<open>
  The specification's \<open>totalBondEnergy\<close>, written from its words for comparison with the code:
  for each bond term, the distance between its two atom positions, the harmonic potential with
  that term's force constant and equilibrium length, summed across all terms; IndexError when a
  term names an atom outside the conformation.
\<close>

definition in_range :: "coordinate list \<Rightarrow> BondTerm \<Rightarrow> bool" where
  "in_range conformation t \<longleftrightarrow>
     bond_atom_i t < length conformation \<and> bond_atom_j t < length conformation"

definition totalBondEnergy_spec :: "coordinate list \<Rightarrow> BondTerm list \<Rightarrow> error + real" where
  "totalBondEnergy_spec conformation bondTerms =
     (if list_all (in_range conformation) bondTerms
      then Inr (\<Sum>t\<leftarrow>bondTerms.
             harmonic (get_distance (conformation ! bond_atom_i t) (conformation ! bond_atom_j t))
               (bond_k_r t) (bond_r0 t))
      else Inl IndexError)"

section \<open>Sums and differences as binary64 computes them\<close>







section \<open>Stating what an operator returns\<close>

text \<open>
  \<open>returns_elementwise res n f\<close>: the call returned a Vector (it did not raise), the
  Vector has \<open>n\<close> elements, and its \<open>i\<close>-th element is \<open>f i\<close>.
\<close>

definition returns_elementwise :: "error + Vector \<Rightarrow> nat \<Rightarrow> (nat \<Rightarrow> real) \<Rightarrow> bool" where
  "returns_elementwise res n f \<longleftrightarrow>
     (case res of
        Inl _ \<Rightarrow> False
      | Inr r \<Rightarrow> length (data r) = n \<and> (\<forall>i<n. data r ! i = f i))"

section \<open>The harmonic potential\<close>

text \<open>
  C3. For all real \<open>x\<close>, \<open>k\<close>, \<open>x0\<close> the harmonic potential is \<open>0.5 * k * (x - x0)\<^sup>2\<close>, and at
  the equilibrium value \<open>x = x0\<close> it is exactly 0, whatever the force constant.
\<close>

theorem harmonic_formula_and_equilibrium:
  "harmonic x k x0 = 0.5 * k * (x - x0)\<^sup>2 \<and> harmonic x0 k x0 = 0"
  by (simp add: harmonic_def)

section \<open>The angle\<close>

lemma get_norm_nonneg: "0 \<le> get_norm v"
  by (cases v) simp

lemma get_norm_pos: "v \<noteq> (0, 0, 0) \<Longrightarrow> 0 < get_norm v"
  by (cases v) (auto simp: sum_power2_gt_zero_iff add_pos_nonneg add_nonneg_pos)

lemma get_norm_cross_swap: "get_norm (cross b a) = get_norm (cross a b)"
  by (cases a; cases b) (simp add: power2_eq_square algebra_simps)

lemma dot_swap: "sum_last (times_coordinate b a) = sum_last (times_coordinate a b)"
  by (cases a; cases b) (simp add: mult.commute)

lemma lagrange_identity:
  "(get_norm (cross u v))\<^sup>2 + (sum_last (times_coordinate u v))\<^sup>2 = (get_norm u * get_norm v)\<^sup>2"
proof (cases u; cases v)
  fix u0 u1 u2 v0 v1 v2 :: real
  assume uv: "u = (u0, u1, u2)" "v = (v0, v1, v2)"
  show ?thesis
    unfolding uv by (simp add: power_mult_distrib) (simp add: power2_eq_square algebra_simps)
qed

lemma arctan2_range: "0 \<le> y \<Longrightarrow> 0 \<le> arctan2 y x \<and> arctan2 y x \<le> pi"
proof -
  assume y: "0 \<le> y"
  have p: "0 < pi" by (rule pi_gt_zero)
  consider "0 < x" | "x < 0" | "x = 0" by linarith
  then show ?thesis
  proof cases
    case 1
    then have eq: "arctan2 y x = arctan (y / x)" by (simp add: arctan2_def)
    have "0 \<le> y / x" using 1 y by simp
    then have lo: "0 \<le> arctan (y / x)" by (simp only: zero_le_arctan_iff)
    have hi: "arctan (y / x) < pi / 2" by (rule arctan_ubound)
    show ?thesis unfolding eq using lo hi p by linarith
  next
    case 2
    then have eq: "arctan2 y x = arctan (y / x) + pi" using y by (simp add: arctan2_def)
    have "y / x \<le> 0" using 2 y by (simp add: divide_nonneg_neg)
    then have hi: "arctan (y / x) \<le> 0" by (simp only: arctan_le_zero_iff)
    have lo: "- (pi / 2) < arctan (y / x)" by (rule arctan_lbound)
    show ?thesis unfolding eq using lo hi p by linarith
  next
    case 3
    then show ?thesis using y p by (simp add: arctan2_def)
  qed
qed

lemma cos_arctan_ratio:
  assumes r: "0 < r" and x: "x \<noteq> 0" and pyth: "y\<^sup>2 + x\<^sup>2 = r\<^sup>2"
  shows "cos (arctan (y / x)) = \<bar>x\<bar> / r"
proof -
  have "1 + (y / x)\<^sup>2 = (x\<^sup>2 + y\<^sup>2) / x\<^sup>2"
    using x by (simp add: power_divide field_simps)
  also have "\<dots> = (r / x)\<^sup>2"
    using pyth by (simp add: power_divide add.commute)
  finally have "sqrt (1 + (y / x)\<^sup>2) = \<bar>r / x\<bar>"
    by simp
  then have "cos (arctan (y / x)) = 1 / \<bar>r / x\<bar>"
    by (simp add: cos_arctan)
  also have "\<dots> = \<bar>x\<bar> / r"
    using r by simp
  finally show ?thesis .
qed

lemma arctan2_arccos:
  assumes y: "0 \<le> y" and r: "0 < r" and pyth: "y\<^sup>2 + x\<^sup>2 = r\<^sup>2"
  shows "arctan2 y x = arccos (x / r)"
proof -
  have p: "0 < pi" by (rule pi_gt_zero)
  consider "0 < x" | "x < 0" | "x = 0" by linarith
  then show ?thesis
  proof cases
    case 1
    then have eq: "arctan2 y x = arctan (y / x)" by (simp add: arctan2_def)
    have "0 \<le> y / x" using 1 y by simp
    then have lo: "0 \<le> arctan (y / x)" by (simp only: zero_le_arctan_iff)
    have hi: "arctan (y / x) < pi / 2" by (rule arctan_ubound)
    have "cos (arctan (y / x)) = x / r"
      using cos_arctan_ratio [OF r _ pyth] 1 by simp
    then have "arccos (x / r) = arccos (cos (arctan (y / x)))" by simp
    also have "\<dots> = arctan (y / x)"
      using lo hi p by (intro arccos_cos) linarith+
    finally show ?thesis by (simp add: eq)
  next
    case 2
    then have eq: "arctan2 y x = arctan (y / x) + pi" using y by (simp add: arctan2_def)
    have "y / x \<le> 0" using 2 y by (simp add: divide_nonneg_neg)
    then have hi: "arctan (y / x) \<le> 0" by (simp only: arctan_le_zero_iff)
    have lo: "- (pi / 2) < arctan (y / x)" by (rule arctan_lbound)
    have "cos (arctan (y / x)) = - x / r"
      using cos_arctan_ratio [OF r _ pyth] 2 by simp
    then have "cos (arctan (y / x) + pi) = x / r"
      by simp
    then have "arccos (x / r) = arccos (cos (arctan (y / x) + pi))" by simp
    also have "\<dots> = arctan (y / x) + pi"
      using lo hi p by (intro arccos_cos) linarith+
    finally show ?thesis by (simp add: eq)
  next
    case 3
    with pyth have "y\<^sup>2 = r\<^sup>2" by simp
    then have "y = r" using y r by (simp add: power2_eq_iff_nonneg)
    then show ?thesis using 3 r by (simp add: arctan2_def)
  qed
qed

text \<open>
  C2. For all coordinates \<open>a\<close>, \<open>center\<close>, \<open>b\<close>, with \<open>v1\<close> the vector from \<open>center\<close> to
  \<open>a\<close> and \<open>v2\<close> the vector from \<open>center\<close> to \<open>b\<close>, \<open>get_angle\<close> returns
  \<open>arctan2 (norm (cross v1 v2)) (dot v1 v2)\<close>; and this is the angle between \<open>v1\<close> and
  \<open>v2\<close> in radians: whenever neither vector is zero it is the arc cosine of
  \<open>dot v1 v2 / (norm v1 * norm v2)\<close>.
\<close>

theorem get_angle_formula:
  "let v1 = (a0 - c0, a1 - c1, a2 - c2); v2 = (b0 - c0, b1 - c1, b2 - c2) in
     get_angle (a0, a1, a2) (c0, c1, c2) (b0, b1, b2)
       = arctan2 (get_norm (cross v1 v2)) (sum_last (times_coordinate v1 v2)) \<and>
     (v1 \<noteq> (0, 0, 0) \<and> v2 \<noteq> (0, 0, 0) \<longrightarrow>
        get_angle (a0, a1, a2) (c0, c1, c2) (b0, b1, b2)
          = arccos (sum_last (times_coordinate v1 v2) / (get_norm v1 * get_norm v2)))"
proof -
  define v1 where "v1 = (a0 - c0, a1 - c1, a2 - c2)"
  define v2 where "v2 = (b0 - c0, b1 - c1, b2 - c2)"
  have formula: "get_angle (a0, a1, a2) (c0, c1, c2) (b0, b1, b2)
       = arctan2 (get_norm (cross v1 v2)) (sum_last (times_coordinate v1 v2))"
    by (simp add: get_angle_def Let_def v1_def v2_def)
  have geometric: "arctan2 (get_norm (cross v1 v2)) (sum_last (times_coordinate v1 v2))
      = arccos (sum_last (times_coordinate v1 v2) / (get_norm v1 * get_norm v2))"
    if "v1 \<noteq> (0, 0, 0)" "v2 \<noteq> (0, 0, 0)"
  proof (rule arctan2_arccos)
    show "0 \<le> get_norm (cross v1 v2)" by (rule get_norm_nonneg)
    show "0 < get_norm v1 * get_norm v2" using that by (simp add: get_norm_pos)
    show "(get_norm (cross v1 v2))\<^sup>2 + (sum_last (times_coordinate v1 v2))\<^sup>2
        = (get_norm v1 * get_norm v2)\<^sup>2"
      by (rule lagrange_identity)
  qed
  show ?thesis
    unfolding Let_def v1_def [symmetric] v2_def [symmetric] using formula geometric by simp
qed

theorem get_angle_formula_witness:
  "(1::real, 0::real, 0::real) \<noteq> (0, 0, 0) \<and> (0::real, 1::real, 0::real) \<noteq> (0, 0, 0) \<and>
   get_angle (1, 0, 0) (0, 0, 0) (0, 1, 0) = arccos 0 \<and>
   get_angle (1, 0, 0) (0, 0, 0) (0, 1, 0) = arctan2 1 0"
  using get_angle_formula [of 1 0 0 0 0 0 0 1 0] by (simp add: Let_def)

text \<open>
  C8. For all coordinates \<open>a\<close>, \<open>c\<close>, \<open>b\<close>, the angle is the same when the two outer atoms
  are swapped: \<open>get_angle a c b = get_angle b c a\<close>.
\<close>

theorem get_angle_swap: "get_angle a c b = get_angle b c a"
  by (simp add: get_angle_def Let_def
      get_norm_cross_swap [of "get_distance_vector c a"] dot_swap [of "get_distance_vector c a"])

text \<open>
  C10. For all coordinates \<open>a\<close>, \<open>center\<close>, \<open>b\<close>, the first argument of the two-argument
  arctangent, the norm of the cross product of the two vectors from \<open>center\<close>, is never
  negative, and the angle returned lies in the closed interval from 0 to \<open>pi\<close>.
\<close>

theorem get_angle_range:
  "0 \<le> get_norm (cross (get_distance_vector c a) (get_distance_vector c b)) \<and>
   0 \<le> get_angle a c b \<and> get_angle a c b \<le> pi"
  using arctan2_range [OF get_norm_nonneg] by (simp add: get_angle_def Let_def get_norm_nonneg)

section \<open>Arithmetic on Vectors\<close>

subsection \<open>Comprehensions that divide\<close>

lemma comprehension_total:
  "(\<And>x. x \<in> set xs \<Longrightarrow> f x = Inr (g x)) \<Longrightarrow> comprehension f xs = Inr (map g xs)"
  by (induction xs) simp_all

lemma comprehension_zero_divisor:
  "p \<in> set ps \<Longrightarrow> snd p = 0 \<Longrightarrow>
   comprehension (\<lambda>(x, y'). py_truediv x y') ps = Inl ZeroDivisionError"
proof (induction ps)
  case Nil
  then show ?case by simp
next
  case (Cons q ps)
  show ?case
  proof (cases "snd q = 0")
    case True
    then show ?thesis by (cases q) (simp add: py_truediv_def)
  next
    case False
    then have "p \<in> set ps" using Cons.prems by auto
    then have "comprehension (\<lambda>(x, y'). py_truediv x y') ps = Inl ZeroDivisionError"
      using Cons.IH Cons.prems(2) by simp
    then show ?thesis using False by (cases q) (simp add: py_truediv_def)
  qed
qed

lemma paired_divisors: "snd ` set (zip xs ys) = set (take (length xs) ys)"
proof -
  have "snd ` set (zip xs ys) = set (map snd (zip xs ys))" by simp
  also have "\<dots> = set (take (min (length xs) (length ys)) ys)"
    by (simp only: map_snd_zip_take)
  also have "\<dots> = set (take (length xs) ys)"
    by (simp add: min_def)
  finally show ?thesis .
qed

subsection \<open>Each operator, on a float and on a Vector\<close>

lemma truediv_scalar_ok:
  assumes "s \<noteq> 0"
  shows "Vector_truediv v (PyFloat s) = Inr (Vector (map (\<lambda>x. x / s) (data v)))"
proof -
  have "comprehension (\<lambda>x. py_truediv x s) (data v) = Inr (map (\<lambda>x. x / s) (data v))"
    by (rule comprehension_total) (simp add: py_truediv_def assms)
  then show ?thesis by (simp add: Vector_truediv_def)
qed

lemma truediv_vector_ok:
  assumes "0 \<notin> set (take (length (data v)) (data w))"
  shows "Vector_truediv v (PyVector w)
           = Inr (Vector (map (\<lambda>(x, y). x / y) (zip (data v) (data w))))"
proof -
  have "(case p of (x, y') \<Rightarrow> py_truediv x y') = Inr (case p of (x, y) \<Rightarrow> x / y)"
    if "p \<in> set (zip (data v) (data w))" for p
  proof -
    have "snd p \<in> set (take (length (data v)) (data w))"
      using that paired_divisors [of "data v" "data w"] by blast
    with assms have "snd p \<noteq> 0" by metis
    then show ?thesis by (cases p) (simp add: py_truediv_def)
  qed
  then have "comprehension (\<lambda>(x, y'). py_truediv x y') (zip (data v) (data w))
      = Inr (map (\<lambda>(x, y). x / y) (zip (data v) (data w)))"
    by (rule comprehension_total)
  then show ?thesis by (simp add: Vector_truediv_def)
qed

lemma truediv_scalar_zero:
  "data v \<noteq> [] \<Longrightarrow> Vector_truediv v (PyFloat 0) = Inl ZeroDivisionError"
  by (cases "data v") (simp_all add: Vector_truediv_def py_truediv_def)

lemma truediv_vector_zero:
  assumes "0 \<in> set (take (length (data v)) (data w))"
  shows "Vector_truediv v (PyVector w) = Inl ZeroDivisionError"
proof -
  from assms obtain p where p: "p \<in> set (zip (data v) (data w))" "snd p = 0"
    using paired_divisors [of "data v" "data w"] by (metis imageE)
  have "comprehension (\<lambda>(x, y'). py_truediv x y') (zip (data v) (data w)) = Inl ZeroDivisionError"
    using p by (rule comprehension_zero_divisor)
  then show ?thesis by (simp add: Vector_truediv_def)
qed

lemma add_scalar: "returns_elementwise (Vector_add v (PyFloat s)) (length (data v)) (\<lambda>i. data v ! i + s)"
  by (simp add: Vector_add_def returns_elementwise_def)

lemma sub_scalar: "returns_elementwise (Vector_sub v (PyFloat s)) (length (data v)) (\<lambda>i. data v ! i - s)"
  by (simp add: Vector_sub_def returns_elementwise_def)

lemma mul_scalar: "returns_elementwise (Vector_mul v (PyFloat s)) (length (data v)) (\<lambda>i. data v ! i * s)"
  by (simp add: Vector_mul_def returns_elementwise_def)

lemma truediv_scalar:
  "s \<noteq> 0 \<Longrightarrow>
   returns_elementwise (Vector_truediv v (PyFloat s)) (length (data v)) (\<lambda>i. data v ! i / s)"
  by (simp add: truediv_scalar_ok returns_elementwise_def)

lemma add_vector:
  "returns_elementwise (Vector_add u (PyVector w)) (min (length (data u)) (length (data w)))
     (\<lambda>i. data u ! i + data w ! i)"
  by (simp add: Vector_add_def returns_elementwise_def)

lemma sub_vector:
  "returns_elementwise (Vector_sub u (PyVector w)) (min (length (data u)) (length (data w)))
     (\<lambda>i. data u ! i - data w ! i)"
  by (simp add: Vector_sub_def returns_elementwise_def)

lemma mul_vector:
  "returns_elementwise (Vector_mul u (PyVector w)) (min (length (data u)) (length (data w)))
     (\<lambda>i. data u ! i * data w ! i)"
  by (simp add: Vector_mul_def returns_elementwise_def)

lemma truediv_vector:
  "0 \<notin> set (take (length (data u)) (data w)) \<Longrightarrow>
   returns_elementwise (Vector_truediv u (PyVector w)) (min (length (data u)) (length (data w)))
     (\<lambda>i. data u ! i / data w ! i)"
  by (simp add: truediv_vector_ok returns_elementwise_def)

lemma dot_zip:
  "Vector_dot u (PyVector w)
     = Inr (\<Sum>i = 0..<min (length (data u)) (length (data w)). data u ! i * data w ! i)"
proof -
  have "sum_list (map (\<lambda>(x, y'). x * y') (zip (data u) (data w)))
      = (\<Sum>i = 0..<length (zip (data u) (data w)). (map (\<lambda>(x, y'). x * y') (zip (data u) (data w))) ! i)"
    by (simp only: sum_list_sum_nth length_map)
  also have "\<dots> = (\<Sum>i = 0..<min (length (data u)) (length (data w)). data u ! i * data w ! i)"
    by (rule sum.cong) simp_all
  finally show ?thesis by (simp add: Vector_dot_def Vector_mul_def Vector_sum_def)
qed

lemma int_operand:
  "Vector_add v (PyInt n) = Inl AttributeError"
  "Vector_sub v (PyInt n) = Inl AttributeError"
  "Vector_mul v (PyInt n) = Inl AttributeError"
  "Vector_truediv v (PyInt n) = Inl AttributeError"
  by (simp_all add: Vector_add_def Vector_sub_def Vector_mul_def Vector_truediv_def)

text \<open>
  C4, amended. For every Vector \<open>v\<close>: add, subtract and multiply applied to a scalar that is a
  float \<open>s\<close> return a new Vector of the same length whose \<open>i\<close>-th element is \<open>v\<^sub>i\<close> combined
  with \<open>s\<close>, and so does divide for a divisor that is not zero; applied to a Vector \<open>w\<close> of the
  same length they return a new Vector of that length whose \<open>i\<close>-th element is the pairwise
  combination of \<open>v\<^sub>i\<close> and \<open>w\<^sub>i\<close>, divide when no element of \<open>w\<close> is zero. The test that
  selects between the two is \<^verbatim>\<open>isinstance(y, float)\<close>: a scalar that is an int is taken for a
  Vector, and each of the four operators fails with AttributeError.
\<close>

theorem broadcast_and_pairwise:
  "returns_elementwise (Vector_add v (PyFloat s)) (length (data v)) (\<lambda>i. data v ! i + s) \<and>
   returns_elementwise (Vector_sub v (PyFloat s)) (length (data v)) (\<lambda>i. data v ! i - s) \<and>
   returns_elementwise (Vector_mul v (PyFloat s)) (length (data v)) (\<lambda>i. data v ! i * s) \<and>
   (s \<noteq> 0 \<longrightarrow>
      returns_elementwise (Vector_truediv v (PyFloat s)) (length (data v)) (\<lambda>i. data v ! i / s)) \<and>
   (length (data w) = length (data v) \<longrightarrow>
      returns_elementwise (Vector_add v (PyVector w)) (length (data v))
        (\<lambda>i. data v ! i + data w ! i) \<and>
      returns_elementwise (Vector_sub v (PyVector w)) (length (data v))
        (\<lambda>i. data v ! i - data w ! i) \<and>
      returns_elementwise (Vector_mul v (PyVector w)) (length (data v))
        (\<lambda>i. data v ! i * data w ! i) \<and>
      (0 \<notin> set (data w) \<longrightarrow>
         returns_elementwise (Vector_truediv v (PyVector w)) (length (data v))
           (\<lambda>i. data v ! i / data w ! i))) \<and>
   Vector_add v (PyInt n) = Inl AttributeError \<and>
   Vector_sub v (PyInt n) = Inl AttributeError \<and>
   Vector_mul v (PyInt n) = Inl AttributeError \<and>
   Vector_truediv v (PyInt n) = Inl AttributeError"
proof -
  have pairwise:
    "returns_elementwise (Vector_add v (PyVector w)) (length (data v))
       (\<lambda>i. data v ! i + data w ! i) \<and>
     returns_elementwise (Vector_sub v (PyVector w)) (length (data v))
       (\<lambda>i. data v ! i - data w ! i) \<and>
     returns_elementwise (Vector_mul v (PyVector w)) (length (data v))
       (\<lambda>i. data v ! i * data w ! i) \<and>
     (0 \<notin> set (data w) \<longrightarrow>
        returns_elementwise (Vector_truediv v (PyVector w)) (length (data v))
          (\<lambda>i. data v ! i / data w ! i))"
    if same: "length (data w) = length (data v)"
  proof -
    have n: "min (length (data v)) (length (data w)) = length (data v)"
      using same by simp
    have t: "take (length (data v)) (data w) = data w"
      using same by simp
    show ?thesis
      using add_vector [of v w] sub_vector [of v w] mul_vector [of v w] truediv_vector [of v w]
      unfolding n t by blast
  qed
  show ?thesis
    using add_scalar [of v s] sub_scalar [of v s] mul_scalar [of v s] truediv_scalar [of s v]
      pairwise int_operand [of v n]
    by blast
qed

theorem broadcast_and_pairwise_witness:
  "(2::real) \<noteq> 0 \<and>
   length (data (Vector [3, 4])) = length (data (Vector [1, 2])) \<and>
   0 \<notin> set (data (Vector [3, 4])) \<and>
   returns_elementwise (Vector_add (Vector [1, 2]) (PyFloat 2)) 2 (\<lambda>i. [1, 2] ! i + 2) \<and>
   returns_elementwise (Vector_truediv (Vector [1, 2]) (PyFloat 2)) 2 (\<lambda>i. [1, 2] ! i / 2) \<and>
   returns_elementwise (Vector_mul (Vector [1, 2]) (PyVector (Vector [3, 4]))) 2
     (\<lambda>i. [1, 2] ! i * [3, 4] ! i) \<and>
   returns_elementwise (Vector_truediv (Vector [1, 2]) (PyVector (Vector [3, 4]))) 2
     (\<lambda>i. [1, 2] ! i / [3, 4] ! i) \<and>
   Vector_mul (Vector [1, 2]) (PyInt 2) = Inl AttributeError"
  using broadcast_and_pairwise [of "Vector [1, 2]" 2 "Vector [3, 4]" 2]
  by (simp add: numeral_2_eq_2)

text \<open>
  For a scalar that is an int the statement fails as it is written for every scalar:
  \<^verbatim>\<open>Vector([1.0, 2.0]) * 2\<close> returns no Vector, and neither do the other three operators.
\<close>

theorem int_scalar_not_broadcast:
  "Vector_add (Vector [1, 2]) (PyInt 2) = Inl AttributeError \<and>
   Vector_sub (Vector [1, 2]) (PyInt 2) = Inl AttributeError \<and>
   Vector_mul (Vector [1, 2]) (PyInt 2) = Inl AttributeError \<and>
   Vector_truediv (Vector [1, 2]) (PyInt 2) = Inl AttributeError \<and>
   \<not> returns_elementwise (Vector_mul (Vector [1, 2]) (PyInt 2)) (length (data (Vector [1, 2])))
       (\<lambda>i. data (Vector [1, 2]) ! i * 2)"
  by (simp add: Vector_add_def Vector_sub_def Vector_mul_def Vector_truediv_def
      returns_elementwise_def)

text \<open>
  C7. Division fails with ZeroDivisionError whenever a divisor is zero: for every nonempty
  Vector divided by the float 0, and for every Vector divided by a Vector of the same length
  that contains a zero.
\<close>

theorem truediv_zero_divisor:
  "(data v \<noteq> [] \<longrightarrow> Vector_truediv v (PyFloat 0) = Inl ZeroDivisionError) \<and>
   (length (data w) = length (data v) \<and> 0 \<in> set (data w) \<longrightarrow>
      Vector_truediv v (PyVector w) = Inl ZeroDivisionError)"
  using truediv_scalar_zero [of v] truediv_vector_zero [of v w] by simp

theorem truediv_zero_divisor_witness:
  "data (Vector [1, 2]) \<noteq> [] \<and>
   Vector_truediv (Vector [1, 2]) (PyFloat 0) = Inl ZeroDivisionError \<and>
   length (data (Vector [3, 0])) = length (data (Vector [1, 2])) \<and>
   0 \<in> set (data (Vector [3, 0])) \<and>
   Vector_truediv (Vector [1, 2]) (PyVector (Vector [3, 0])) = Inl ZeroDivisionError"
  using truediv_zero_divisor [of "Vector [1, 2]" "Vector [3, 0]"] by simp

text \<open>
  C6, amended. For Vectors \<open>u\<close> and \<open>w\<close> of different lengths no operation fails because of the
  lengths: add, subtract and multiply return the pairwise combinations of the first
  \<open>min (length u) (length w)\<close> elements, silently dropping the rest of the longer operand;
  divide does the same when none of the paired divisors is zero and raises ZeroDivisionError
  when one is; dot returns the sum of the products of the paired elements.
\<close>

theorem mismatched_lengths_truncate:
  assumes "length (data u) \<noteq> length (data w)"
  shows "returns_elementwise (Vector_add u (PyVector w)) (min (length (data u)) (length (data w)))
           (\<lambda>i. data u ! i + data w ! i) \<and>
         returns_elementwise (Vector_sub u (PyVector w)) (min (length (data u)) (length (data w)))
           (\<lambda>i. data u ! i - data w ! i) \<and>
         returns_elementwise (Vector_mul u (PyVector w)) (min (length (data u)) (length (data w)))
           (\<lambda>i. data u ! i * data w ! i) \<and>
         (0 \<notin> set (take (length (data u)) (data w)) \<longrightarrow>
            returns_elementwise (Vector_truediv u (PyVector w))
              (min (length (data u)) (length (data w))) (\<lambda>i. data u ! i / data w ! i)) \<and>
         (0 \<in> set (take (length (data u)) (data w)) \<longrightarrow>
            Vector_truediv u (PyVector w) = Inl ZeroDivisionError) \<and>
         Vector_dot u (PyVector w)
           = Inr (\<Sum>i = 0..<min (length (data u)) (length (data w)). data u ! i * data w ! i)"
  using add_vector [of u w] sub_vector [of u w] mul_vector [of u w] truediv_vector [of u w]
    truediv_vector_zero [of u w] dot_zip [of u w]
  by blast

theorem mismatched_lengths_truncate_witness:
  "length (data (Vector [1, 2, 3])) \<noteq> length (data (Vector [10, 20])) \<and>
   0 \<notin> set (take (length (data (Vector [1, 2, 3]))) (data (Vector [10, 20]))) \<and>
   returns_elementwise (Vector_add (Vector [1, 2, 3]) (PyVector (Vector [10, 20]))) 2
     (\<lambda>i. [1, 2, 3] ! i + [10, 20] ! i) \<and>
   returns_elementwise (Vector_truediv (Vector [1, 2, 3]) (PyVector (Vector [10, 20]))) 2
     (\<lambda>i. [1, 2, 3] ! i / [10, 20] ! i) \<and>
   Vector_dot (Vector [1, 2, 3]) (PyVector (Vector [10, 20])) = Inr (1 * 10 + 2 * 20)"
  using mismatched_lengths_truncate [of "Vector [1, 2, 3]" "Vector [10, 20]"]
  by (simp add: numeral_2_eq_2)

text \<open>
  A Vector of three elements plus a Vector of two is a Vector of two, and their dot product is
  a number: neither call fails.
\<close>

theorem mismatched_lengths_no_error:
  "Vector_add (Vector [1, 2, 3]) (PyVector (Vector [10, 20])) = Inr (Vector [11, 22]) \<and>
   Vector_dot (Vector [1, 2, 3]) (PyVector (Vector [10, 20])) = Inr 50"
  by (simp add: Vector_add_def Vector_dot_def Vector_mul_def Vector_sum_def)

section \<open>Adding and subtracting the same scalar\<close>












section \<open>The mean\<close>

text \<open>
  With any function bound to the name, \<open>mean\<close> is that function applied to the data.
\<close>

lemma Vector_mean_bound: "g ''average'' = Some f \<Longrightarrow> Vector_mean g self = f (data self)"
  by (simp add: Vector_mean_def)

text \<open>
  C5. \<open>mean\<close> is meant to return the sum divided by the length. In the notebook the call
  \<^verbatim>\<open>Vector([1.0, 2.0]).mean()\<close> returns no number: the name \<^verbatim>\<open>average\<close> is unbound and
  the call raises NameError.
\<close>

theorem mean_raises_NameError:
  "Vector_mean notebook_globals (Vector [1, 2]) = Inl (NameError ''average'')"
  by (simp add: Vector_mean_def notebook_globals_def)

section \<open>The bond energy\<close>

lemma bond_energy_TypeError:
  "bond_energy_computed [x0, x1, x2] (b # bs) = Inl TypeError"
  by (simp add: bond_energy_computed_def strip_units_cell_def run_cell_def
      unpack_cell_def distances_cell_def parameters_cell_def fresh_namespace_def
      energy_cell_def harmonic_call_def)

lemma bond_energy_no_number: "bond_energy_computed conformer bonds \<noteq> Inr e"
  by (cases bonds)
    (auto simp: bond_energy_computed_def strip_units_cell_def run_cell_def
      unpack_cell_def distances_cell_def parameters_cell_def fresh_namespace_def
      energy_cell_def harmonic_call_def split: list.splits option.splits)

text \<open>
  C1. The bond energy is meant to be the sum, over the bond terms, of the harmonic potential of
  the distance between the term's two atoms; for three atoms at distance 1 and the bond terms
  0-1 and 1-2 with force constant 2 and equilibrium length 0 that sum is 2. The notebook as
  saved computes no number there: the cell that erases the units does not parse, the
  parameters still carry their units, and \<^verbatim>\<open>harmonic(r01, k_r, r0)\<close> raises TypeError.
\<close>

theorem bond_energy_raises_TypeError:
  "bond_energy_computed [(0, 0, 0), (1, 0, 0), (1, 1, 0)]
     [\<lparr>bond_atom_i = 0, bond_atom_j = 1, bond_r0 = 0, bond_k_r = 2\<rparr>,
      \<lparr>bond_atom_i = 1, bond_atom_j = 2, bond_r0 = 0, bond_k_r = 2\<rparr>] = Inl TypeError \<and>
   totalBondEnergy_spec [(0, 0, 0), (1, 0, 0), (1, 1, 0)]
     [\<lparr>bond_atom_i = 0, bond_atom_j = 1, bond_r0 = 0, bond_k_r = 2\<rparr>,
      \<lparr>bond_atom_i = 1, bond_atom_j = 2, bond_r0 = 0, bond_k_r = 2\<rparr>] = Inr 2"
  by (simp add: bond_energy_TypeError totalBondEnergy_spec_def in_range_def get_distance_def
      harmonic_def)

end
